theory Spec2Isabelle
  imports Main
begin

section \<open>JavaScript values and exceptions\<close>

text \<open>
  The editor is JavaScript. Arguments that the code tests for truthiness or hands on
  unchanged are values of \<open>jsval\<close>; numbers are integers here (no claim below depends
  on a fractional number or on NaN). A thrown exception is a value of \<open>js_error\<close>.
\<close>

datatype jsval =
    Undefined
  | Null
  | JBool bool
  | JNum int
  | JStr string
  | JObj "(string \<times> jsval) list"

datatype js_error = Thrown string

fun truthy :: "jsval \<Rightarrow> bool" where
  "truthy Undefined = False"
| "truthy Null = False"
| "truthy (JBool b) = b"
| "truthy (JNum n) = (n \<noteq> 0)"
| "truthy (JStr s) = (s \<noteq> [])"
| "truthy (JObj kvs) = True"

section \<open>Atoms and the expression tree\<close>

text \<open>
  An atom carries its type (\<open>'mord'\<close>, \<open>'mclose'\<close>, \<open>'root'\<close>, ...), its value and the two
  transient presentation flags. The child slots of the source (children, superscript,
  subscript, numerator, ...) are kept as one list of sub-atoms in document order: the
  properties below only need that the tree is strict and that every atom is below the
  root exactly once. An atom object is identified by its position below the root.
\<close>

datatype atom =
  Atom (atype: string) (avalue: string) (hasCaret: bool) (isSelected: bool)
       (children: "atom list")

type_synonym apath = "nat list"

fun atomAt :: "atom \<Rightarrow> apath \<Rightarrow> atom option" where
  "atomAt a [] = Some a"
| "atomAt a (i # p) =
     (if i < length (children a) then atomAt (children a ! i) p else None)"

text \<open>
  Modelled from the spec: \<open>MathAtom.forEach\<close> is not among the sources. It calls the
  callback on every atom of the tree, the atom itself first, then its sub-atoms in
  order. The callback receives the atom (here with its position, which stands for the
  object's identity) and may assign the atom's own fields.
\<close>

fun forEach :: "(apath \<Rightarrow> atom \<Rightarrow> atom) \<Rightarrow> apath \<Rightarrow> atom \<Rightarrow> atom"
  and forEachList :: "(apath \<Rightarrow> atom \<Rightarrow> atom) \<Rightarrow> apath \<Rightarrow> nat \<Rightarrow> atom list \<Rightarrow> atom list"
where
  "forEach cb p (Atom t v hc sel cs) =
     (case cb p (Atom t v hc sel cs) of
        Atom t' v' hc' sel' cs' \<Rightarrow> Atom t' v' hc' sel' (forEachList cb p 0 cs))"
| "forEachList cb p i [] = []"
| "forEachList cb p i (c # cs) = forEach cb (p @ [i]) c # forEachList cb p (Suc i) cs"

text \<open>\<open>a.hasCaret = true\<close> on the atom object at a position; an object that is not part
  of the tree leaves the tree as it is.\<close>

fun setHasCaret :: "apath \<Rightarrow> atom \<Rightarrow> atom" where
  "setHasCaret [] (Atom t v hc sel cs) = Atom t v True sel cs"
| "setHasCaret (i # p) (Atom t v hc sel cs) =
     (if i < length cs then Atom t v hc sel (cs[i := setHasCaret p (cs ! i)])
      else Atom t v hc sel cs)"

section \<open>The editable math list and the undo manager\<close>

text \<open>
  The editable math list owns the expression tree and the current selection. Its class
  is not among the sources; the selection is kept abstract (type \<open>'sel\<close>).
\<close>

record 'sel mathlist =
  root :: atom
  selection :: 'sel

text \<open>
  Modelled from the spec: the \<open>UndoManager\<close> class is not among the sources. Section 4.6:
  \<open>snapshot()\<close> pushes the current tree state, dropping any redo history beyond the
  cursor; \<open>undo()\<close> moves the cursor back and replaces the live tree with the snapshot at
  the cursor. The cursor counts the snapshots that can still be undone.
\<close>

record undo_manager =
  stack :: "atom list"
  cursor :: nat

definition snapshot :: "'sel mathlist \<Rightarrow> undo_manager \<Rightarrow> undo_manager" where
  "snapshot ml um =
     (let s = take (cursor um) (stack um) @ [root ml]
      in \<lparr>stack = s, cursor = length s\<rparr>)"

definition undo :: "'sel mathlist \<Rightarrow> undo_manager \<Rightarrow> 'sel mathlist \<times> undo_manager" where
  "undo ml um =
     (if cursor um = 0 \<or> length (stack um) < cursor um then (ml, um)
      else (ml\<lparr>root := stack um ! (cursor um - 1)\<rparr>, um\<lparr>cursor := cursor um - 1\<rparr>))"

section \<open>The math field\<close>

text \<open>
  The configuration object: a property that the caller did not give is \<open>None\<close>
  (\<open>undefined\<close> in the source, which is falsy).
\<close>

record config_opts =
  spacesBehavesLikeTab :: "bool option"
  overrideDefaultInlineShortcuts :: "bool option"
  inlineShortcuts :: "string \<rightharpoonup> string"

text \<open>
  The state of a \<open>MathField\<close> object. \<open>focused\<close> is the value of \<open>hasFocus()\<close>, which the
  source reads from the document. The popover is reduced to its visibility and the
  LaTeX and arrow flag it was last shown with; \<open>fieldMarkup\<close> is \<open>field.innerHTML\<close>.
  \<open>renderCount\<close> counts the completed passes of \<open>_render\<close>.
\<close>

record 'sel mathfield =
  config :: config_opts
  mathlist :: "'sel mathlist"
  undoManager :: undo_manager
  suggestionIndex :: int
  pasteInProgress :: bool
  focused :: bool
  popoverVisible :: bool
  popoverContent :: "string \<times> bool"
  fieldMarkup :: string
  renderCount :: nat

text \<open>
  The collaborators of the two source files that are not among the sources: the methods
  of \<open>EditableMathlist\<close>, the serializer and the layout of \<open>MathAtom\<close>, the suggestions of
  \<open>Definitions\<close> and the built-in table of \<open>Shortcuts\<close>. They are parameters of the
  model, so every property below holds for any implementation of them.
  \<open>mathlistMethod\<close> is the property lookup \<open>this.mathlist[selector]\<close> (\<open>None\<close> when the
  property is not a function); a method may throw. \<open>contains\<close>, \<open>isCollapsed\<close> and
  \<open>anchor\<close> are queries on the selection, with atoms given by position.
  \<open>fieldMethodBody\<close> stands for the bodies of those methods of \<open>MathField\<close> that only
  drive the document or the parser.
\<close>

record 'sel collab =
  parseMode :: "'sel mathlist \<Rightarrow> string"
  extractGroupStringBeforeInsertionPoint :: "'sel mathlist \<Rightarrow> string"
  extractCommandStringAroundInsertionPoint :: "'sel mathlist \<Rightarrow> string"
  decorateCommandStringAroundInsertionPoint :: "bool \<Rightarrow> 'sel mathlist \<Rightarrow> 'sel mathlist"
  removeSuggestion :: "'sel mathlist \<Rightarrow> 'sel mathlist"
  insertSuggestion :: "string \<Rightarrow> int \<Rightarrow> 'sel mathlist \<Rightarrow> 'sel mathlist"
  insertML :: "jsval \<Rightarrow> jsval \<Rightarrow> 'sel mathlist \<Rightarrow> 'sel mathlist"
  deleteML :: "int \<Rightarrow> 'sel mathlist \<Rightarrow> 'sel mathlist"
  contains :: "'sel \<Rightarrow> apath \<Rightarrow> bool"
  isCollapsed :: "'sel \<Rightarrow> bool"
  anchor :: "'sel \<Rightarrow> apath"
  mathlistMethod :: "string \<Rightarrow> (jsval list \<Rightarrow> 'sel mathlist \<Rightarrow> js_error + 'sel mathlist) option"
  toLatex :: "atom \<Rightarrow> string"
  toMarkup :: "bool \<Rightarrow> atom \<Rightarrow> string"
  suggestDefinitions :: "string \<Rightarrow> string list"
  INLINE_SHORTCUTS :: "string \<rightharpoonup> string"
  redoUndoManager :: "'sel mathlist \<Rightarrow> undo_manager \<Rightarrow> 'sel mathlist \<times> undo_manager"
  fieldMethodBody :: "string \<Rightarrow> jsval list \<Rightarrow> 'sel mathfield \<Rightarrow> js_error + 'sel mathfield"

subsection \<open>\<open>_render\<close>\<close>

text \<open>
  Step 1 of \<open>_render\<close> recomputes the presentation flags; steps 2 to 5 lay the tree out
  and store the markup in the field element.
\<close>

definition render :: "'sel collab \<Rightarrow> 'sel mathfield \<Rightarrow> 'sel mathfield" where
  "render E mf =
     (let ml = mathlist mf;
          r1 = forEach (\<lambda>p a. Atom (atype a) (avalue a) False
                                   (contains E (selection ml) p) (children a))
                 [] (root ml);
          hasFocus = focused mf;
          r2 = (if hasFocus \<and> isCollapsed E (selection ml)
                then setHasCaret (anchor E (selection ml)) r1 else r1)
      in mf\<lparr>mathlist := ml\<lparr>root := r2\<rparr>,
            fieldMarkup := toMarkup E hasFocus r2,
            renderCount := Suc (renderCount mf)\<rparr>)"

subsection \<open>\<open>latex\<close>\<close>

definition latex :: "'sel collab \<Rightarrow> jsval \<Rightarrow> 'sel mathfield \<Rightarrow> string \<times> 'sel mathfield" where
  "latex E text mf =
     (let mf' =
        (if truthy text then
           (let mf1 = mf\<lparr>undoManager := snapshot (mathlist mf) (undoManager mf)\<rparr>;
                mf2 = mf1\<lparr>mathlist :=
                        insertML E text
                          (JObj [(''insertionMode'', JStr ''replaceAll''),
                                 (''format'', JStr ''latex'')])
                          (mathlist mf1)\<rparr>
            in render E mf2)
         else mf)
      in (toLatex E (root (mathlist mf')), mf'))"

subsection \<open>The popover\<close>

definition hidePopover :: "'sel mathfield \<Rightarrow> 'sel mathfield" where
  "hidePopover mf = mf\<lparr>popoverVisible := False\<rparr>"


subsection \<open>Inline shortcuts\<close>

record inline_shortcut =
  match :: string
  substitute :: string

text \<open>
  Modelled from the spec: \<open>Shortcuts.matchEndOf\<close> is not among the sources. Sections 4.7
  and 6: it finds the longest registered key that is a suffix of the text; at each key
  the shortcuts of the configuration are consulted before the built-in table, and the
  built-in table is skipped when \<open>overrideDefaultInlineShortcuts\<close> is true. The
  built-in table itself is a parameter.
\<close>

definition lookupShortcut ::
  "config_opts \<Rightarrow> (string \<rightharpoonup> string) \<Rightarrow> string \<Rightarrow> string option" where
  "lookupShortcut cfg builtin key =
     (case inlineShortcuts cfg key of
        Some s \<Rightarrow> Some s
      | None \<Rightarrow>
          if overrideDefaultInlineShortcuts cfg = Some True then None else builtin key)"

fun matchSuffixes ::
  "config_opts \<Rightarrow> (string \<rightharpoonup> string) \<Rightarrow> string \<Rightarrow> inline_shortcut option" where
  "matchSuffixes cfg builtin [] = None"
| "matchSuffixes cfg builtin (c # cs) =
     (case lookupShortcut cfg builtin (c # cs) of
        Some s \<Rightarrow> Some \<lparr>match = c # cs, substitute = s\<rparr>
      | None \<Rightarrow> matchSuffixes cfg builtin cs)"

definition matchEndOf ::
  "string \<Rightarrow> config_opts \<Rightarrow> (string \<rightharpoonup> string) \<Rightarrow> inline_shortcut option" where
  "matchEndOf s cfg builtin = matchSuffixes cfg builtin s"

text \<open>\<open>MathField.prototype.config\<close>: the defaults, overwritten by what the caller gave.\<close>

definition MathField_config :: "config_opts \<Rightarrow> config_opts" where
  "MathField_config cfg =
     cfg\<lparr>spacesBehavesLikeTab :=
           (case spacesBehavesLikeTab cfg of None \<Rightarrow> Some False | Some b \<Rightarrow> Some b)\<rparr>"

subsection \<open>\<open>_onTypedText\<close>\<close>

definition letters :: string where
  "letters = ''abcdefghijklmnopqrstuvwxyzABCDEFGHIJKLMNOPQRSTUVWXYZ''"

text \<open>The test \<open>/^\\[a-zA-Z\\*]+$/\<close> of the source.\<close>

definition looksLikeCommand :: "string \<Rightarrow> bool" where
  "looksLikeCommand s =
     (case s of
        [] \<Rightarrow> False
      | c # cs \<Rightarrow> c = CHR 0x5C \<and> cs \<noteq> [] \<and>
                 list_all (\<lambda>x. x \<in> set letters \<or> x = CHR 0x5C \<or> x = CHR ''*'') cs)"

text \<open>
  One round of the loop \<open>for (const c of text)\<close>. The loop carries the field and the
  two locals \<open>popoverText\<close> and \<open>displayArrows\<close>. \<open>_showKeystroke\<close> only writes to the
  keystroke caption of the document and is left out.
\<close>

definition typedChar ::
  "'sel collab \<Rightarrow> char \<Rightarrow> 'sel mathfield \<times> string option \<times> bool
     \<Rightarrow> 'sel mathfield \<times> string option \<times> bool" where
  "typedChar E c st =
     (case st of (mf, popoverText, displayArrows) \<Rightarrow>
       (let ml = mathlist mf;
            shortcut =
              (if parseMode E ml = ''math''
               then matchEndOf (extractGroupStringBeforeInsertionPoint E ml @ [c])
                      (config mf) (INLINE_SHORTCUTS E)
               else None)
        in if parseMode E ml = ''command'' then
             (let ml1 = removeSuggestion E ml;
                  command = extractCommandStringAroundInsertionPoint E ml1;
                  suggestions = suggestDefinitions E (command @ [c]);
                  arrows = (1 < length suggestions)
              in case suggestions of
                   [] \<Rightarrow>
                     (let ml2 = insertML E (JStr [c]) Undefined ml1;
                          ml3 = (if looksLikeCommand (command @ [c])
                                 then decorateCommandStringAroundInsertionPoint E True ml2
                                 else ml2)
                      in (hidePopover (mf\<lparr>mathlist := ml3, suggestionIndex := 0\<rparr>),
                          popoverText, arrows))
                 | s # rest \<Rightarrow>
                     (let ml2 = insertML E (JStr [c]) Undefined ml1;
                          ml3 = (if s \<noteq> command @ [c]
                                 then insertSuggestion E s
                                        (- int (length s) + int (length command) + 1) ml2
                                 else ml2)
                      in (mf\<lparr>mathlist := ml3, suggestionIndex := 0\<rparr>, Some s, arrows)))
           else
             (case shortcut of
                Some sc \<Rightarrow>
                  (let ml1 = insertML E (JStr [c]) Undefined ml;
                       um1 = snapshot ml1 (undoManager mf);
                       ml2 = deleteML E (- int (length (match sc)) - 1) ml1;
                       ml3 = insertML E (JStr (substitute sc)) Undefined ml2
                   in (mf\<lparr>mathlist := ml3, undoManager := um1\<rparr>,
                       popoverText, displayArrows))
              | None \<Rightarrow>
                  (let um1 = snapshot ml (undoManager mf);
                       ml1 = insertML E (JStr [c]) Undefined ml
                   in (mf\<lparr>mathlist := ml1, undoManager := um1\<rparr>,
                       popoverText, displayArrows)))))"


subsection \<open>The selectors of \<open>MathField\<close> and \<open>perform\<close>\<close>

text \<open>The methods \<open>undo_\<close>, \<open>redo_\<close>, \<open>scrollIntoView_\<close>, \<open>enterCommandMode_\<close> and
  \<open>insert_\<close> of the source; a name cannot end in an underscore here.\<close>

definition undoSelector :: "'sel mathfield \<Rightarrow> 'sel mathfield" where
  "undoSelector mf =
     (case undo (mathlist mf) (undoManager mf) of
        (ml, um) \<Rightarrow> mf\<lparr>mathlist := ml, undoManager := um\<rparr>)"

definition redoSelector :: "'sel collab \<Rightarrow> 'sel mathfield \<Rightarrow> 'sel mathfield" where
  "redoSelector E mf =
     (case redoUndoManager E (mathlist mf) (undoManager mf) of
        (ml, um) \<Rightarrow> mf\<lparr>mathlist := ml, undoManager := um\<rparr>)"

definition scrollIntoViewSelector :: "'sel mathfield \<Rightarrow> 'sel mathfield" where
  "scrollIntoViewSelector mf = mf"

definition enterCommandModeSelector :: "'sel collab \<Rightarrow> 'sel mathfield \<Rightarrow> 'sel mathfield" where
  "enterCommandModeSelector E mf =
     (let ml1 = decorateCommandStringAroundInsertionPoint E False (mathlist mf);
          ml2 = removeSuggestion E ml1;
          mf1 = (hidePopover (mf\<lparr>mathlist := ml2\<rparr>))\<lparr>suggestionIndex := 0\<rparr>;
          mf2 = mf1\<lparr>undoManager := snapshot (mathlist mf1) (undoManager mf1)\<rparr>
      in mf2\<lparr>mathlist := insertML E (JStr [CHR 0x27]) Undefined (mathlist mf2)\<rparr>)"

text \<open>Reading and assigning a property of an options object.\<close>

fun getProp :: "jsval \<Rightarrow> string \<Rightarrow> jsval" where
  "getProp (JObj kvs) k = (case map_of kvs k of Some v \<Rightarrow> v | None \<Rightarrow> Undefined)"
| "getProp v k = Undefined"

fun setProp :: "jsval \<Rightarrow> string \<Rightarrow> jsval \<Rightarrow> jsval" where
  "setProp (JObj kvs) k v = JObj ((k, v) # filter (\<lambda>kv. fst kv \<noteq> k) kvs)"
| "setProp u k v = u"

definition insertSelector :: "'sel collab \<Rightarrow> jsval \<Rightarrow> jsval \<Rightarrow> 'sel mathfield \<Rightarrow> 'sel mathfield" where
  "insertSelector E ltx options mf =
     (case ltx of
        JStr s \<Rightarrow>
          if 0 < length s then
            (let options1 = (if \<not> truthy options then JObj [] else options);
                 options2 = (if \<not> truthy (getProp options1 ''format'')
                             then setProp options1 ''format'' (JStr ''auto'')
                             else options1)
             in mf\<lparr>mathlist := insertML E (JStr s) options2 (mathlist mf)\<rparr>)
          else mf
      | _ \<Rightarrow> mf)"

text \<open>
  The property lookup \<open>this[selector]\<close> on the field, for the names that end in an
  underscore: the functions that the source assigns to \<open>MathField.prototype\<close>. (The
  functions that every object inherits, such as \<open>__defineGetter__\<close>, are found on the
  math list first and belong to \<open>mathlistMethod\<close>.) An argument that the caller left
  out is \<open>undefined\<close>.
\<close>

definition argAt :: "jsval list \<Rightarrow> nat \<Rightarrow> jsval" where
  "argAt args i = (if i < length args then args ! i else Undefined)"

definition documentSelectors :: "string list" where
  "documentSelectors =
     [''copyToClipboard_'', ''cutToClipboard_'', ''pasteFromClipboard_'', ''complete_'',
      ''nextSuggestion_'', ''previousSuggestion_'', ''toggleKeystrokeCaption_'',
      ''toggleCommandBar_'']"

definition fieldMethod ::
  "'sel collab \<Rightarrow> string \<Rightarrow>
     (jsval list \<Rightarrow> 'sel mathfield \<Rightarrow> js_error + 'sel mathfield) option" where
  "fieldMethod E selector =
     (if selector = ''undo_'' then Some (\<lambda>args mf. Inr (undoSelector mf))
      else if selector = ''redo_'' then Some (\<lambda>args mf. Inr (redoSelector E mf))
      else if selector \<in> set [''scrollIntoView_'', ''scrollToStart_'', ''scrollToEnd_'']
        then Some (\<lambda>args mf. Inr mf)
      else if selector = ''enterCommandMode_''
        then Some (\<lambda>args mf. Inr (enterCommandModeSelector E mf))
      else if selector = ''insert_''
        then Some (\<lambda>args mf.
               Inr (insertSelector E (argAt args 0) (argAt args 1) mf))
      else if selector \<in> set documentSelectors then Some (fieldMethodBody E selector)
      else None)"

text \<open>A command is a selector name or an array of a selector name and its arguments.\<close>

datatype command = Selector string | SelectorArgs string "jsval list"

definition deleteSelectors :: "string list" where
  "deleteSelectors =
     [''delete_'', ''transpose_'', ''deleteToMathFieldEnd_'', ''deleteToGroupEnd_'',
      ''deleteToGroupStart_'', ''deletePreviousWord_'', ''deleteNextWord_'',
      ''deletePreviousChar_'', ''deleteNextChar_'']"

definition perform ::
  "'sel collab \<Rightarrow> command \<Rightarrow> 'sel mathfield \<Rightarrow> js_error + (bool \<times> 'sel mathfield)" where
  "perform E cmd mf =
     (let selector = (case cmd of Selector n \<Rightarrow> n @ ''_'' | SelectorArgs n as \<Rightarrow> n @ ''_'');
          args = (case cmd of Selector n \<Rightarrow> [] | SelectorArgs n as \<Rightarrow> as)
      in case mathlistMethod E selector of
           Some m \<Rightarrow>
             (let mf1 = (if selector \<in> set deleteSelectors
                         then mf\<lparr>undoManager := snapshot (mathlist mf) (undoManager mf)\<rparr>
                         else mf)
              in case m args (mathlist mf1) of
                   Inl e \<Rightarrow> Inl e
                 | Inr ml \<Rightarrow> Inr (True, scrollIntoViewSelector (render E (mf1\<lparr>mathlist := ml\<rparr>))))
         | None \<Rightarrow>
             (case fieldMethod E selector of
                Some f \<Rightarrow>
                  (let mf1 = (if selector \<in> set [''complete_'']
                              then mf\<lparr>undoManager := snapshot (mathlist mf) (undoManager mf)\<rparr>
                              else mf)
                   in case f args mf1 of
                        Inl e \<Rightarrow> Inl e
                      | Inr mf2 \<Rightarrow> Inr (True, scrollIntoViewSelector (render E mf2)))
              | None \<Rightarrow> Inr (False, mf)))"

section \<open>A concrete editable list\<close>

text \<open>
  Modelled from the spec: the class \<open>EditableMathlist\<close>, the parser and the serializer
  are not among the sources. This is a small instance of the collaborators, on which
  the functions above are run on concrete inputs. It
  has one group of atoms below the root and a selection given by the number of atoms
  before it and the number of atoms in it, and follows section 4.4 for a single group:
  \<open>insert\<close> replaces the selection by the parsed text and puts the caret after it,
  \<open>delete\<close> removes the selection, or else atoms in the given direction, as many as
  there are. A control sequence parses to one atom, any other text to one atom per
  character. The anchor is the atom before the caret, the root when there is none. The
  built-in shortcut table holds the one entry that the source names, \<open>pi\<close>.
\<close>

record flat_sel =
  caret :: nat
  extent :: nat

definition mkAtom :: "string \<Rightarrow> string \<Rightarrow> atom" where
  "mkAtom t v = Atom t v False False []"

definition withChildren :: "atom \<Rightarrow> atom list \<Rightarrow> atom" where
  "withChildren a cs = Atom (atype a) (avalue a) (hasCaret a) (isSelected a) cs"

definition flatParseMode :: "flat_sel mathlist \<Rightarrow> string" where
  "flatParseMode ml =
     (let k = caret (selection ml); cs = children (root ml)
      in if 0 < k \<and> k \<le> length cs \<and> atype (cs ! (k - 1)) = ''command''
         then ''command'' else ''math'')"

definition flatParse :: "string \<Rightarrow> string \<Rightarrow> atom list" where
  "flatParse t s =
     (case s of
        [] \<Rightarrow> []
      | c # cs \<Rightarrow> if c = CHR 0x5C then [mkAtom t s] else map (\<lambda>x. mkAtom t [x]) s)"

definition flatInsert :: "jsval \<Rightarrow> jsval \<Rightarrow> flat_sel mathlist \<Rightarrow> flat_sel mathlist" where
  "flatInsert text options ml =
     (case text of
        JStr s \<Rightarrow>
          (let cs = children (root ml);
               k = caret (selection ml);
               e = extent (selection ml);
               new = flatParse (if flatParseMode ml = ''command'' then ''command'' else ''mord'') s
           in if getProp options ''insertionMode'' = JStr ''replaceAll''
              then \<lparr>root = withChildren (root ml) new,
                    selection = \<lparr>caret = length new, extent = 0\<rparr>\<rparr>
              else \<lparr>root = withChildren (root ml) (take k cs @ new @ drop (k + e) cs),
                    selection = \<lparr>caret = k + length new, extent = 0\<rparr>\<rparr>)
      | _ \<Rightarrow> ml)"

definition flatDelete :: "int \<Rightarrow> flat_sel mathlist \<Rightarrow> flat_sel mathlist" where
  "flatDelete n ml =
     (let cs = children (root ml);
          k = caret (selection ml);
          e = extent (selection ml)
      in if 0 < e
         then \<lparr>root = withChildren (root ml) (take k cs @ drop (k + e) cs),
               selection = \<lparr>caret = k, extent = 0\<rparr>\<rparr>
         else if n < 0
         then (let d = min (nat (- n)) k
               in \<lparr>root = withChildren (root ml) (take (k - d) cs @ drop k cs),
                   selection = \<lparr>caret = k - d, extent = 0\<rparr>\<rparr>)
         else \<lparr>root = withChildren (root ml) (take k cs @ drop (k + nat n) cs),
               selection = \<lparr>caret = k, extent = 0\<rparr>\<rparr>)"

fun flatToLatex :: "atom \<Rightarrow> string" where
  "flatToLatex (Atom t v hc sel cs) = v @ concat (map flatToLatex cs)"

definition flatContains :: "flat_sel \<Rightarrow> apath \<Rightarrow> bool" where
  "flatContains sel p =
     (case p of [] \<Rightarrow> False | i # q \<Rightarrow> caret sel \<le> i \<and> i < caret sel + extent sel)"

definition flatMethod ::
  "string \<Rightarrow> (jsval list \<Rightarrow> flat_sel mathlist \<Rightarrow> js_error + flat_sel mathlist) option" where
  "flatMethod selector =
     (if selector = ''deletePreviousChar_'' then Some (\<lambda>args ml. Inr (flatDelete (- 1) ml))
      else if selector = ''deleteNextChar_'' then Some (\<lambda>args ml. Inr (flatDelete 1 ml))
      else if selector = ''delete_'' then Some (\<lambda>args ml. Inr (flatDelete 0 ml))
      else if selector = ''selectAll_''
        then Some (\<lambda>args ml.
               Inr (ml\<lparr>selection := \<lparr>caret = 0, extent = length (children (root ml))\<rparr>\<rparr>))
      else None)"

definition flatE :: "flat_sel collab" where
  "flatE =
     \<lparr>parseMode = flatParseMode,
      extractGroupStringBeforeInsertionPoint =
        (\<lambda>ml. concat (map avalue (take (caret (selection ml)) (children (root ml))))),
      extractCommandStringAroundInsertionPoint =
        (\<lambda>ml. concat (map avalue (filter (\<lambda>a. atype a = ''command'') (children (root ml))))),
      decorateCommandStringAroundInsertionPoint = (\<lambda>b ml. ml),
      removeSuggestion = (\<lambda>ml. ml),
      insertSuggestion = (\<lambda>s n ml. ml),
      insertML = flatInsert,
      deleteML = flatDelete,
      contains = flatContains,
      isCollapsed = (\<lambda>sel. extent sel = 0),
      anchor = (\<lambda>sel. if caret sel = 0 then [] else [caret sel - 1]),
      mathlistMethod = flatMethod,
      toLatex = flatToLatex,
      toMarkup = (\<lambda>f r. flatToLatex r),
      suggestDefinitions = (\<lambda>s. []),
      INLINE_SHORTCUTS = map_of [(''pi'', CHR 0x5C # ''pi'')],
      redoUndoManager = (\<lambda>ml um. (ml, um)),
      fieldMethodBody = (\<lambda>selector args mf. Inr mf)\<rparr>"

definition flatField :: "atom list \<Rightarrow> nat \<Rightarrow> nat \<Rightarrow> flat_sel mathfield" where
  "flatField cs k e =
     \<lparr>config = MathField_config
        \<lparr>spacesBehavesLikeTab = None, overrideDefaultInlineShortcuts = None,
         inlineShortcuts = Map.empty\<rparr>,
      mathlist = \<lparr>root = Atom ''root'' [] False False cs,
                  selection = \<lparr>caret = k, extent = e\<rparr>\<rparr>,
      undoManager = \<lparr>stack = [], cursor = 0\<rparr>,
      suggestionIndex = 0,
      pasteInProgress = False,
      focused = True,
      popoverVisible = False,
      popoverContent = ([], False),
      fieldMarkup = [],
      renderCount = 0\<rparr>"

text \<open>A field in command mode whose text before the caret ends in \<open>p\<close>, and a
  configuration that redefines the trigger \<open>pi\<close>.\<close>

definition commandField :: "flat_sel mathfield" where
  "commandField = flatField [mkAtom ''command'' [CHR 0x5C], mkAtom ''command'' ''p''] 2 0"

definition userConfig :: "bool option \<Rightarrow> config_opts" where
  "userConfig flag =
     MathField_config
       \<lparr>spacesBehavesLikeTab = None, overrideDefaultInlineShortcuts = flag,
        inlineShortcuts = map_of [(''pi'', ''3.14'')]\<rparr>"

section \<open>The command bar (\<open>editor-commands.js\<close>)\<close>

subsection \<open>Arrays of atoms\<close>

text \<open>
  The context of \<open>suggest\<close> holds arrays of atoms, which JavaScript passes by
  reference; one function below returns either one of these arrays or an array of its
  own that it fills by \<open>unshift\<close> and \<open>push\<close>. The arrays therefore live in a store, a
  reference being an index into it, so that writing through an alias would show.
\<close>

type_synonym store = "atom list list"

definition deref :: "store \<Rightarrow> nat \<Rightarrow> atom list" where
  "deref h r = (if r < length h then h ! r else [])"

definition alloc :: "atom list \<Rightarrow> store \<Rightarrow> nat \<times> store" where
  "alloc xs h = (length h, h @ [xs])"

definition unshift :: "nat \<Rightarrow> atom \<Rightarrow> store \<Rightarrow> store" where
  "unshift r a h = h[r := a # deref h r]"

definition push :: "nat \<Rightarrow> atom \<Rightarrow> store \<Rightarrow> store" where
  "push r a h = h[r := deref h r @ [a]]"

record ctx =
  parsemode :: string
  environment :: string
  modifiers :: string
  parent :: "atom option"
  beforeRef :: "nat option"
  selectionRef :: "nat option"
  afterRef :: "nat option"

subsection \<open>The tests on atom values\<close>

definition upperLetters :: string where
  "upperLetters = ''ABCDEFGHIJKLMNOPQRSTUVWXYZ''"

definition lowerLetters :: string where
  "lowerLetters = ''abcdefghijklmnopqrstuvwxyz''"

definition digits :: string where
  "digits = ''0123456789''"

text \<open>\<open>/^[...]$/.test(v)\<close> for a class of characters: \<open>v\<close> is one character of the class.\<close>

definition testSingle :: "string \<Rightarrow> string \<Rightarrow> bool" where
  "testSingle cls v = (case v of [c] \<Rightarrow> c \<in> set cls | _ \<Rightarrow> False)"

text \<open>\<open>/[0-9.]/.test(v)\<close>: some character of \<open>v\<close> is a digit or a dot.\<close>

definition testDigitOrDot :: "string \<Rightarrow> bool" where
  "testDigitOrDot v = list_ex (\<lambda>c. c \<in> set digits \<or> c = CHR ''.'') v"

subsection \<open>The \<open>arg\<close> function\<close>

text \<open>
  The loop \<open>while (i >= 0 && ...) { result.unshift(ctx.before[i]); i -= 1; }\<close>, with
  \<open>n = i + 1\<close>; \<open>b\<close> is the array \<open>ctx.before\<close> and \<open>r\<close> the array \<open>result\<close>.
\<close>

fun digitsLoop :: "nat \<Rightarrow> nat \<Rightarrow> nat \<Rightarrow> store \<Rightarrow> store" where
  "digitsLoop b 0 r h = h"
| "digitsLoop b (Suc i) r h =
     (if atype (deref h b ! i) = ''mord'' \<and> testDigitOrDot (avalue (deref h b ! i))
      then digitsLoop b i r (unshift r (deref h b ! i) h)
      else h)"

definition previousSingleCharOrDigits :: "ctx \<Rightarrow> store \<Rightarrow> nat option \<times> store" where
  "previousSingleCharOrDigits c h =
     (if selectionRef c \<noteq> None \<and> 0 < length (deref h (the (selectionRef c)))
      then (selectionRef c, h)
      else if beforeRef c \<noteq> None \<and> 0 < length (deref h (the (beforeRef c)))
      then (let b = the (beforeRef c);
                (r, h1) = alloc [] h;
                h2 = digitsLoop b (length (deref h1 b)) r h1;
                h3 = (if length (deref h2 r) = 0
                      then push r (deref h2 b ! (length (deref h2 b) - 1)) h2
                      else h2)
            in (Some r, h3))
      else (None, h))"

subsection \<open>The \<open>condition\<close> functions\<close>

definition notInCommandMode :: "ctx \<Rightarrow> store \<Rightarrow> bool" where
  "notInCommandMode c h = (selectionRef c = None \<and> parsemode c \<noteq> ''command'')"

definition inCommandMode :: "ctx \<Rightarrow> store \<Rightarrow> bool" where
  "inCommandMode c h = (parsemode c = ''command'')"

definition selectionIsNotEmpty :: "ctx \<Rightarrow> store \<Rightarrow> bool" where
  "selectionIsNotEmpty c h = (selectionRef c \<noteq> None)"

definition selectionIsSingleUppercaseCharOrDigit :: "ctx \<Rightarrow> store \<Rightarrow> bool" where
  "selectionIsSingleUppercaseCharOrDigit c h =
     (case selectionRef c of
        None \<Rightarrow> False
      | Some s \<Rightarrow>
          length (filter (\<lambda>a. atype a = ''mord'' \<and> testSingle (upperLetters @ digits) (avalue a))
                    (deref h s)) = 1)"

definition selectionIsSingleUppercaseChar :: "ctx \<Rightarrow> store \<Rightarrow> bool" where
  "selectionIsSingleUppercaseChar c h =
     (case selectionRef c of
        None \<Rightarrow> False
      | Some s \<Rightarrow>
          length (filter (\<lambda>a. atype a = ''mord'' \<and> testSingle upperLetters (avalue a))
                    (deref h s)) = 1)"

definition selectionIsSingleAlphaChar :: "ctx \<Rightarrow> store \<Rightarrow> bool" where
  "selectionIsSingleAlphaChar c h =
     (case selectionRef c of
        None \<Rightarrow> False
      | Some s \<Rightarrow>
          length (filter (\<lambda>a. atype a = ''mord'' \<and>
                               testSingle (lowerLetters @ upperLetters) (avalue a))
                    (deref h s)) = 1)"

text \<open>
  \<open>supsubCandidate\<close> reads the last atom of \<open>ctx.before\<close> without testing that there
  is one: on an empty array the read of \<open>atom.type\<close> throws. The zero-width space \<open>U+200B\<close> that the
  source compares with is its three bytes in UTF-8.
\<close>

definition supsubCandidate :: "ctx \<Rightarrow> store \<Rightarrow> js_error + bool" where
  "supsubCandidate c h =
     (if beforeRef c \<noteq> None \<and>
         (case parent c of None \<Rightarrow> True | Some p \<Rightarrow> atype p = ''root'')
      then (let bs = deref h (the (beforeRef c))
            in if bs = [] then Inl (Thrown ''TypeError'')
               else (let a = bs ! (length bs - 1)
                     in Inr ((atype a = ''mclose'' \<or> atype a = ''mord'') \<and>
                             avalue a \<noteq> [CHR 0xE2, CHR 0x80, CHR 0x8B])))
      else Inr False)"

datatype condition =
    NotInCommandMode
  | InCommandMode
  | SelectionIsNotEmpty
  | SelectionIsSingleUppercaseCharOrDigit
  | SelectionIsSingleUppercaseChar
  | SelectionIsSingleAlphaChar
  | SupsubCandidate

fun evalCondition :: "condition \<Rightarrow> ctx \<Rightarrow> store \<Rightarrow> js_error + bool" where
  "evalCondition NotInCommandMode c h = Inr (notInCommandMode c h)"
| "evalCondition InCommandMode c h = Inr (inCommandMode c h)"
| "evalCondition SelectionIsNotEmpty c h = Inr (selectionIsNotEmpty c h)"
| "evalCondition SelectionIsSingleUppercaseCharOrDigit c h =
     Inr (selectionIsSingleUppercaseCharOrDigit c h)"
| "evalCondition SelectionIsSingleUppercaseChar c h = Inr (selectionIsSingleUppercaseChar c h)"
| "evalCondition SelectionIsSingleAlphaChar c h = Inr (selectionIsSingleAlphaChar c h)"
| "evalCondition SupsubCandidate c h = supsubCandidate c h"

subsection \<open>The table of commands\<close>

datatype shortcuts = ShortcutKey string | ShortcutKeys "string list"

datatype argfn = PreviousSingleCharOrDigits

text \<open>
  An entry of the result of \<open>suggest\<close> has the first five fields; a description in the
  table \<open>COMMANDS\<close> has four more. A field that a description does not give is \<open>None\<close>.
\<close>

record entry =
  label :: string
  cls :: "string option"
  ariaLabel :: "string option"
  selector :: command
  utility :: int

record command_desc = entry +
  dynamicLabel :: "string option"
  shortcut :: "shortcuts option"
  condition :: "condition option"
  arg :: "argfn option"

definition backslash :: "string \<Rightarrow> string" where
  "backslash s = CHR 0x5C # s"

definition desc :: "string \<Rightarrow> command \<Rightarrow> int \<Rightarrow> command_desc" where
  "desc l s u =
     \<lparr>label = l, cls = None, ariaLabel = None, selector = s, utility = u,
      dynamicLabel = None, shortcut = None, condition = None, arg = None\<rparr>"

definition insertCommand :: "string \<Rightarrow> string \<Rightarrow> condition \<Rightarrow> int \<Rightarrow> command_desc" where
  "insertCommand l name f u =
     (desc l (SelectorArgs ''insert'' [JStr (backslash (name @ ''{#0}''))]) u)
       \<lparr>dynamicLabel := Some (backslash (name @ ''{#0}'')), condition := Some f\<rparr>"

definition COMMANDS :: "command_desc list" where
  \<open>COMMANDS =
     [(desc ''&#x21e0'' (Selector ''moveToPreviousChar'') 1004)
        \<lparr>cls := Some ''glyph'', ariaLabel := Some ''Left'',
         shortcut := Some (ShortcutKey ''none'')\<rparr>,
      (desc ''&#x21e2'' (Selector ''moveToNextChar'') 1003)
        \<lparr>cls := Some ''glyph'', ariaLabel := Some ''Right'',
         shortcut := Some (ShortcutKey ''none'')\<rparr>,
      (desc ''&#x21e5'' (Selector ''moveToNextPlaceholder'') 1002)
        \<lparr>cls := Some ''glyph'', ariaLabel := Some ''Tab'',
         shortcut := Some (ShortcutKey ''none''), condition := Some NotInCommandMode\<rparr>,
      (desc ''&#x232b'' (Selector ''deletePreviousChar'') 1001)
        \<lparr>cls := Some ''glyph'', ariaLabel := Some ''Backspace'',
         shortcut := Some (ShortcutKey ''none'')\<rparr>,
      (desc ''Copy as LaTeX'' (SelectorArgs ''copyToClipboard'' []) 900)
        \<lparr>shortcut := Some (ShortcutKeys [''mac:Meta-KeyC'', ''!mac:Ctrl-KeyC'']),
         condition := Some SelectionIsNotEmpty\<rparr>,
      insertCommand ''Fraktur'' ''mathfrak'' SelectionIsSingleUppercaseChar 400,
      insertCommand ''Calligraphic'' ''mathcal'' SelectionIsSingleUppercaseChar 400,
      insertCommand ''Blackboard'' ''mathbb'' SelectionIsSingleUppercaseChar 500,
      insertCommand ''Script'' ''mathscr'' SelectionIsSingleUppercaseChar 300,
      insertCommand ''Sans Serif'' ''mathsf'' SelectionIsSingleUppercaseCharOrDigit 100,
      insertCommand ''Typewriter'' ''mathtt'' SelectionIsNotEmpty 100,
      insertCommand ''Bold'' ''mathbf'' SelectionIsNotEmpty 400,
      (desc ''Vector''
         (SelectorArgs ''insert''
            [JStr (backslash ''vec{#0}''), JObj [(''selectionMode'', JStr ''item'')]]) 400)
        \<lparr>dynamicLabel := Some (backslash ''vec{#0}''),
         condition := Some SelectionIsSingleAlphaChar\<rparr>,
      insertCommand ''Bar'' ''bar'' SelectionIsSingleAlphaChar 300,
      (desc ''Superscript'' (Selector ''moveToSuperscript'') 700)
        \<lparr>dynamicLabel := Some (''#0^'' @ backslash ''unicode{"2B1A}''),
         shortcut := Some (ShortcutKey ''^''), condition := Some SupsubCandidate,
         arg := Some PreviousSingleCharOrDigits\<rparr>,
      (desc ''Subscript'' (Selector ''moveToSubscript'') 500)
        \<lparr>dynamicLabel := Some (''#0_'' @ backslash ''unicode{"2B1A}''),
         shortcut := Some (ShortcutKey ''_''), condition := Some SupsubCandidate,
         arg := Some PreviousSingleCharOrDigits\<rparr>,
      (desc ''Command'' (Selector ''enterCommandMode'') 800)
        \<lparr>shortcut := Some (ShortcutKey (backslash [])),
         condition := Some NotInCommandMode\<rparr>,
      (desc ''Complete'' (Selector ''complete'') 800)
        \<lparr>shortcut := Some (ShortcutKey ''Return''), condition := Some InCommandMode\<rparr>]\<close>

subsection \<open>\<open>latexToMarkup\<close> and \<open>suggest\<close>\<close>

text \<open>
  The collaborators of \<open>editor-commands.js\<close> that are not among the sources:
  \<open>Shortcuts.getShortcutsForCommand\<close> and \<open>Shortcuts.stringify\<close>, \<open>toLatex\<close> of an atom,
  the parser after the lexer (\<open>parseTokens(tokenize(latex), 'math', args)\<close>, the
  arguments \<open>None\<close> when the call gives none), and the way from the parsed atoms to the
  markup (\<open>decompose\<close>, the struts, \<open>toMarkup\<close>). They are functions of their
  arguments: they are taken not to write to what they are given.
\<close>

record cmd_collab =
  getShortcutsForCommand :: "command \<Rightarrow> shortcuts option"
  stringify :: "shortcuts \<Rightarrow> string"
  atomToLatex :: "atom \<Rightarrow> string"
  parseTokens :: "string \<Rightarrow> atom list list option \<Rightarrow> atom list"
  spansToMarkup :: "atom list \<Rightarrow> string"

definition latexToMarkup :: "cmd_collab \<Rightarrow> string \<Rightarrow> atom list option \<Rightarrow> string" where
  "latexToMarkup E ltx a =
     (let args =
        (case a of
           None \<Rightarrow> []
         | Some as \<Rightarrow>
             if 0 < length as
             then [parseTokens E (concat (map (atomToLatex E) as)) None]
             else [])
      in spansToMarkup E (parseTokens E ltx (Some args)))"

fun truthyShortcuts :: "shortcuts \<Rightarrow> bool" where
  "truthyShortcuts (ShortcutKey s) = (s \<noteq> [])"
| "truthyShortcuts (ShortcutKeys ks) = True"

text \<open>One round of the loop over \<open>COMMANDS\<close>: the entry pushed to \<open>result\<close>, if any.\<close>

definition suggestCommand ::
  "cmd_collab \<Rightarrow> ctx \<Rightarrow> command_desc \<Rightarrow> store \<Rightarrow> js_error + (entry option \<times> store)" where
  \<open>suggestCommand E c command h =
     (case (case condition command of None \<Rightarrow> Inr True | Some f \<Rightarrow> evalCondition f c h) of
        Inl e \<Rightarrow> Inl e
      | Inr ok \<Rightarrow>
          if \<not> ok then Inr (None, h)
          else
            (let shortcuts =
                   (case shortcut command of
                      None \<Rightarrow> getShortcutsForCommand E (selector command)
                    | Some s \<Rightarrow>
                        if truthyShortcuts s then Some s
                        else getShortcutsForCommand E (selector command));
                 shortcutLabel =
                   (case shortcuts of
                      None \<Rightarrow> []
                    | Some s \<Rightarrow>
                        if truthyShortcuts s \<and> s \<noteq> ShortcutKey ''none''
                        then stringify E s else []);
                 mk = (\<lambda>l. \<lparr>label = l, cls = cls command, ariaLabel = ariaLabel command,
                              selector = selector command, utility = utility command\<rparr>)
             in case dynamicLabel command of
                  Some dyn \<Rightarrow>
                    (let (a, h1) =
                           (case arg command of
                              None \<Rightarrow> (selectionRef c, h)
                            | Some PreviousSingleCharOrDigits \<Rightarrow> previousSingleCharOrDigits c h);
                         l1 = ''<span class="ML__dynamicLabel">'' @
                              latexToMarkup E dyn (map_option (deref h1) a) @ ''</span>'';
                         l2 = (if label command \<noteq> []
                               then l1 @ ''<span class="ML__shortLabel">'' @ label command @
                                    ''<span class="ML__keyboardShortcut">'' @ shortcutLabel @
                                    ''</span>''
                               else l1)
                     in Inr (Some (mk l2), h1))
                | None \<Rightarrow>
                    (let l = (if shortcutLabel \<noteq> []
                              then label command @ ''<span class="ML__keyboardShortcut">'' @
                                   shortcutLabel @ ''</span>''
                              else label command)
                     in Inr (Some (mk l), h))))\<close>

fun suggestLoop ::
  "cmd_collab \<Rightarrow> ctx \<Rightarrow> command_desc list \<Rightarrow> entry list \<Rightarrow> store
     \<Rightarrow> js_error + (entry list \<times> store)" where
  "suggestLoop E c [] result h = Inr (result, h)"
| "suggestLoop E c (command # rest) result h =
     (case suggestCommand E c command h of
        Inl e \<Rightarrow> Inl e
      | Inr (None, h1) \<Rightarrow> suggestLoop E c rest result h1
      | Inr (Some e, h1) \<Rightarrow> suggestLoop E c rest (result @ [e]) h1)"

text \<open>
  \<open>result.sort((a, b) => b.utility - a.utility)\<close>: by decreasing utility, entries of
  equal utility in the order of the table (the sort of the language is stable).
\<close>

fun insertByUtility :: "entry \<Rightarrow> entry list \<Rightarrow> entry list" where
  "insertByUtility e [] = [e]"
| "insertByUtility e (x # xs) =
     (if utility x < utility e then e # x # xs else x # insertByUtility e xs)"

definition sortByUtility :: "entry list \<Rightarrow> entry list" where
  "sortByUtility es = foldl (\<lambda>acc e. insertByUtility e acc) [] es"

definition suggest ::
  "cmd_collab \<Rightarrow> string \<Rightarrow> string \<Rightarrow> string \<Rightarrow> atom option \<Rightarrow> nat option \<Rightarrow> nat option
     \<Rightarrow> nat option \<Rightarrow> store \<Rightarrow> js_error + (entry list \<times> store)" where
  "suggest E pm env mods par bef sel aft h =
     (case suggestLoop E
             \<lparr>parsemode = pm, environment = env, modifiers = mods, parent = par,
              beforeRef = bef, selectionRef = sel, afterRef = aft\<rparr>
             COMMANDS [] h of
        Inl e \<Rightarrow> Inl e
      | Inr (result, h1) \<Rightarrow> Inr (sortByUtility result, h1))"

text \<open>A store with two arrays, the atoms before the selection and the selected atoms.\<close>

definition twoArrays :: "atom list \<Rightarrow> atom list \<Rightarrow> store" where
  "twoArrays bs sel = [bs, sel]"

subsection \<open>Notions for the properties of the store\<close>

text \<open>
  A reference is valid when its array is in the store. Two stores agree for a context
  when they hold the same atoms at the arrays that the context names and \<open>suggest\<close>
  reads. \<open>digitsOf\<close> and \<open>prevPure\<close> give the contents of the array that
  \<open>previousSingleCharOrDigits\<close> returns, and \<open>argOf\<close> is the argument of the dynamic label.
\<close>

definition validRef :: "store \<Rightarrow> nat option \<Rightarrow> bool" where
  "validRef h r = (case r of None \<Rightarrow> True | Some k \<Rightarrow> k < length h)"

definition agree :: "ctx \<Rightarrow> store \<Rightarrow> store \<Rightarrow> bool" where
  "agree c h1 h2 =
     ((case beforeRef c of None \<Rightarrow> True | Some k \<Rightarrow> deref h1 k = deref h2 k) \<and>
      (case selectionRef c of None \<Rightarrow> True | Some k \<Rightarrow> deref h1 k = deref h2 k))"

fun digitsOf :: "atom list \<Rightarrow> nat \<Rightarrow> atom list \<Rightarrow> atom list" where
  "digitsOf bs 0 acc = acc"
| "digitsOf bs (Suc i) acc =
     (if atype (bs ! i) = ''mord'' \<and> testDigitOrDot (avalue (bs ! i))
      then digitsOf bs i (bs ! i # acc) else acc)"

definition prevPure :: "atom list option \<Rightarrow> atom list option \<Rightarrow> atom list option" where
  "prevPure sel bef =
     (if sel \<noteq> None \<and> the sel \<noteq> [] then sel
      else if bef \<noteq> None \<and> the bef \<noteq> []
      then (let bs = the bef; ds = digitsOf bs (length bs) []
            in Some (if ds = [] then [bs ! (length bs - 1)] else ds))
      else None)"

definition argOf :: "ctx \<Rightarrow> command_desc \<Rightarrow> store \<Rightarrow> nat option \<times> store" where
  "argOf c command h =
     (case arg command of
        None \<Rightarrow> (selectionRef c, h)
      | Some PreviousSingleCharOrDigits \<Rightarrow> previousSingleCharOrDigits c h)"


text \<open>An instance of the collaborators of the command bar, to run \<open>suggest\<close> on.\<close>

definition flatCmdE :: cmd_collab where
  "flatCmdE =
     \<lparr>getShortcutsForCommand = (\<lambda>c. None),
      stringify = (\<lambda>s. case s of ShortcutKey k \<Rightarrow> k | ShortcutKeys ks \<Rightarrow> concat ks),
      atomToLatex = flatToLatex,
      parseTokens = (\<lambda>s args. case args of Some (a # as) \<Rightarrow> a | _ \<Rightarrow> flatParse ''mord'' s),
      spansToMarkup = (\<lambda>as. concat (map flatToLatex as))\<rparr>"

section \<open>Properties\<close>

subsection \<open>Auxiliary facts\<close>

lemma forEachList_length [simp]: "length (forEachList cb p i cs) = length cs"
  by (induction cs arbitrary: i) auto

lemma forEachList_nth:
  "j < length cs \<Longrightarrow> forEachList cb p i cs ! j = forEach cb (p @ [i + j]) (cs ! j)"
proof (induction cs arbitrary: i j)
  case Nil
  then show ?case by simp
next
  case (Cons c cs)
  then show ?case by (cases j) auto
qed

lemma children_forEach: "children (forEach cb p a) = forEachList cb p 0 (children a)"
  by (cases a) (auto split: atom.splits)

lemma atomAt_forEach:
  "atomAt (forEach cb p a) q =
     (case atomAt a q of None \<Rightarrow> None | Some b \<Rightarrow> Some (forEach cb (p @ q) b))"
proof (induction q arbitrary: a p)
  case Nil
  then show ?case by simp
next
  case (Cons i q)
  show ?case
  proof (cases "i < length (children a)")
    case True
    then show ?thesis
      using Cons.IH [of "p @ [i]" "children a ! i"]
      by (auto simp: children_forEach forEachList_nth split: option.splits)
  next
    case False
    then show ?thesis by (simp add: children_forEach)
  qed
qed

lemma hasCaret_forEach: "hasCaret (forEach cb p a) = hasCaret (cb p a)"
  by (cases a) (auto split: atom.splits)

lemma isSelected_forEach: "isSelected (forEach cb p a) = isSelected (cb p a)"
  by (cases a) (auto split: atom.splits)

lemma isSelected_setHasCaret [simp]: "isSelected (setHasCaret p a) = isSelected a"
  by (cases a; cases p) auto

lemma hasCaret_setHasCaret: "hasCaret (setHasCaret p a) = (p = [] \<or> hasCaret a)"
  by (cases a; cases p) auto

lemma atomAt_setHasCaret:
  "atomAt (setHasCaret p a) q =
     (case atomAt a q of
        None \<Rightarrow> None
      | Some b \<Rightarrow>
          Some (if take (length q) p = q then setHasCaret (drop (length q) p) b else b))"
proof (induction q arbitrary: a p)
  case Nil
  then show ?case by simp
next
  case (Cons i q)
  obtain t v hc sel cs where a: "a = Atom t v hc sel cs" by (cases a)
  show ?case
  proof (cases p)
    case Nil
    then show ?thesis using a by (auto split: option.splits)
  next
    case (Cons j p')
    show ?thesis
    proof (cases "i < length cs")
      case True
      then show ?thesis using a Cons Cons.IH [of p' "cs ! i"]
        by (auto simp: nth_list_update split: option.splits)
    next
      case False
      then show ?thesis using a Cons by auto
    qed
  qed
qed

lemma take_drop_eq: "take (length q) p = q \<Longrightarrow> (drop (length q) p = []) = (q = p)"
  by (metis append_take_drop_id append_Nil2 drop_all order_refl)

lemma flags_setHasCaret:
  assumes "atomAt (setHasCaret p a) q = Some b'"
  shows "\<exists>b. atomAt a q = Some b \<and> isSelected b' = isSelected b \<and>
             hasCaret b' = (q = p \<or> hasCaret b)"
proof -
  from assms obtain b where b: "atomAt a q = Some b"
    and b': "b' = (if take (length q) p = q then setHasCaret (drop (length q) p) b else b)"
    by (auto simp: atomAt_setHasCaret split: option.splits)
  show ?thesis
  proof (cases "take (length q) p = q")
    case True
    then show ?thesis using b b' by (auto simp: hasCaret_setHasCaret take_drop_eq)
  next
    case False
    then have "q \<noteq> p" by auto
    then show ?thesis using b b' False by auto
  qed
qed

lemma render_flags_at:
  assumes "atomAt (root (mathlist (render E mf))) p = Some a"
  shows "isSelected a = contains E (selection (mathlist mf)) p \<and>
         hasCaret a = (focused mf \<and> isCollapsed E (selection (mathlist mf)) \<and>
                       anchor E (selection (mathlist mf)) = p)"
proof -
  let ?sel = "selection (mathlist mf)"
  let ?cb = "\<lambda>p a. Atom (atype a) (avalue a) False (contains E ?sel p) (children a)"
  let ?r1 = "forEach ?cb [] (root (mathlist mf))"
  have r1: "atomAt ?r1 q = Some b \<Longrightarrow> isSelected b = contains E ?sel q \<and> \<not> hasCaret b"
    for q b
    by (auto simp: atomAt_forEach hasCaret_forEach isSelected_forEach split: option.splits)
  show ?thesis
  proof (cases "focused mf \<and> isCollapsed E ?sel")
    case True
    then have "atomAt (setHasCaret (anchor E ?sel) ?r1) p = Some a"
      using assms by (simp add: render_def Let_def)
    from flags_setHasCaret [OF this] r1 True show ?thesis by auto
  next
    case False
    then have "atomAt ?r1 p = Some a"
      using assms by (auto simp: render_def Let_def)
    from r1 [OF this] False show ?thesis by auto
  qed
qed

lemma render_shape:
  "(atomAt (root (mathlist (render E mf))) p = None) = (atomAt (root (mathlist mf)) p = None)"
  by (auto simp: render_def Let_def atomAt_setHasCaret atomAt_forEach split: option.splits)

lemma undo_after_snapshot: "fst (undo ml' (snapshot ml um)) = ml'\<lparr>root := root ml\<rparr>"
  by (simp add: undo_def snapshot_def Let_def nth_append)




lemma digitsLoop_length [simp]: "length (digitsLoop b i r h) = length h"
  by (induction i arbitrary: h) (auto simp: unshift_def)

lemma digitsLoop_frame: "n \<le> r \<Longrightarrow> take n (digitsLoop b i r h) = take n h"
  by (induction i arbitrary: h) (auto simp: unshift_def)

lemma digitsLoop_content:
  "b \<noteq> r \<Longrightarrow> r < length h \<Longrightarrow>
   deref (digitsLoop b i r h) r = digitsOf (deref h b) i (deref h r) \<and>
   deref (digitsLoop b i r h) b = deref h b"
proof (induction i arbitrary: h)
  case 0
  then show ?case by simp
next
  case (Suc i)
  let ?a = "deref h b ! i"
  show ?case
  proof (cases "atype ?a = ''mord'' \<and> testDigitOrDot (avalue ?a)")
    case True
    let ?h = "unshift r ?a h"
    have "r < length ?h" using Suc.prems by (simp add: unshift_def)
    from Suc.IH [OF Suc.prems(1) this]
    have "deref (digitsLoop b i r ?h) r = digitsOf (deref ?h b) i (deref ?h r)"
      and "deref (digitsLoop b i r ?h) b = deref ?h b" by auto
    moreover have "deref ?h b = deref h b" using Suc.prems by (auto simp: unshift_def deref_def)
    moreover have "deref ?h r = ?a # deref h r" using Suc.prems by (auto simp: unshift_def deref_def)
    ultimately show ?thesis using True by simp
  next
    case False
    then show ?thesis by auto
  qed
qed

lemma prev_frame:
  assumes "previousSingleCharOrDigits c h = (a, h')"
  shows "take (length h) h' = h \<and> length h \<le> length h'"
  using assms
  by (auto simp: previousSingleCharOrDigits_def alloc_def Let_def push_def digitsLoop_frame
           split: if_splits)

lemma prev_content:
  assumes "previousSingleCharOrDigits c h = (a, h')"
  shows "map_option (deref h') a =
           prevPure (map_option (deref h) (selectionRef c)) (map_option (deref h) (beforeRef c))"
proof (cases "selectionRef c \<noteq> None \<and> 0 < length (deref h (the (selectionRef c)))")
  case True
  then show ?thesis using assms
    by (auto simp: previousSingleCharOrDigits_def prevPure_def)
next
  case nsel: False
  show ?thesis
  proof (cases "beforeRef c \<noteq> None \<and> 0 < length (deref h (the (beforeRef c)))")
    case False
    then show ?thesis using assms nsel
      by (auto simp: previousSingleCharOrDigits_def prevPure_def)
  next
    case True
    then obtain b where b: "beforeRef c = Some b" and ne: "deref h b \<noteq> []" by auto
    then have bl: "b < length h" by (auto simp: deref_def split: if_splits)
    let ?r = "length h"
    let ?h1 = "h @ [[]]"
    have d1: "deref ?h1 b = deref h b" using bl by (simp add: deref_def nth_append)
    have r1: "deref ?h1 ?r = []" by (simp add: deref_def)
    have c: "deref (digitsLoop b (length (deref ?h1 b)) ?r ?h1) ?r
               = digitsOf (deref h b) (length (deref h b)) []"
      and cb: "deref (digitsLoop b (length (deref ?h1 b)) ?r ?h1) b = deref h b"
      using digitsLoop_content [of b ?r ?h1 "length (deref ?h1 b)"] bl d1 r1 by auto
    let ?h2 = "digitsLoop b (length (deref ?h1 b)) ?r ?h1"
    have a: "a = Some ?r"
      and h': "h' = (if length (deref ?h2 ?r) = 0
                     then push ?r (deref ?h2 b ! (length (deref ?h2 b) - 1)) ?h2 else ?h2)"
      using assms nsel True b
      by (auto simp: previousSingleCharOrDigits_def alloc_def Let_def)
    have "deref h' ?r = (let ds = digitsOf (deref h b) (length (deref h b)) []
                         in if ds = [] then [deref h b ! (length (deref h b) - 1)] else ds)"
      using h' c cb by (auto simp: push_def deref_def Let_def)
    then show ?thesis using a nsel True b ne
      by (auto simp: prevPure_def Let_def)
  qed
qed

lemma cond_agree: "agree c h1 h2 \<Longrightarrow> evalCondition f c h1 = evalCondition f c h2"
  by (cases f)
     (auto simp: agree_def notInCommandMode_def inCommandMode_def selectionIsNotEmpty_def
        selectionIsSingleUppercaseCharOrDigit_def selectionIsSingleUppercaseChar_def
        selectionIsSingleAlphaChar_def supsubCandidate_def Let_def split: option.splits)

lemma prev_agree:
  assumes "agree c h1 h2"
    and "previousSingleCharOrDigits c h1 = (a1, h1')"
    and "previousSingleCharOrDigits c h2 = (a2, h2')"
  shows "map_option (deref h1') a1 = map_option (deref h2') a2"
proof -
  have "map_option (deref h1) (selectionRef c) = map_option (deref h2) (selectionRef c)"
    and "map_option (deref h1) (beforeRef c) = map_option (deref h2) (beforeRef c)"
    using assms(1) by (auto simp: agree_def split: option.splits)
  then show ?thesis
    using prev_content [OF assms(2)] prev_content [OF assms(3)] by simp
qed

lemma argOf_frame:
  "argOf c command h = (a, h') \<Longrightarrow> take (length h) h' = h \<and> length h \<le> length h'"
  by (auto simp: argOf_def dest: prev_frame split: option.splits argfn.splits)

lemma argOf_agree:
  assumes "agree c h1 h2" and "argOf c command h1 = (a1, h1')" and "argOf c command h2 = (a2, h2')"
  shows "map_option (deref h1') a1 = map_option (deref h2') a2"
proof (cases "arg command")
  case None
  then show ?thesis using assms by (auto simp: argOf_def agree_def split: option.splits)
next
  case (Some f)
  then show ?thesis using assms prev_agree [of c h1 h2 a1 h1' a2 h2']
    by (cases f) (auto simp: argOf_def)
qed

lemma suggestCommand_frame:
  assumes "suggestCommand E c command h = Inr (e, h')"
  shows "take (length h) h' = h \<and> length h \<le> length h'"
proof -
  obtain a h1 where a: "argOf c command h = (a, h1)" by (cases "argOf c command h")
  have "h' = h \<or> h' = h1"
    using assms a
    by (auto simp: suggestCommand_def Let_def argOf_def
             split: sum.splits if_splits option.splits prod.splits)
  then show ?thesis using argOf_frame [OF a] by auto
qed

lemma suggestCommand_agree:
  assumes "agree c h1 h2"
  shows "map_sum id fst (suggestCommand E c command h1) =
         map_sum id fst (suggestCommand E c command h2)"
proof -
  obtain a1 h1' where a1: "argOf c command h1 = (a1, h1')" by (cases "argOf c command h1")
  obtain a2 h2' where a2: "argOf c command h2 = (a2, h2')" by (cases "argOf c command h2")
  have eq: "map_option (deref h1') a1 = map_option (deref h2') a2"
    using argOf_agree [OF assms a1 a2] .
  have cond: "\<And>f. evalCondition f c h1 = evalCondition f c h2"
    using assms by (rule cond_agree)
  show ?thesis
    using a1 a2 eq
    by (auto simp: suggestCommand_def Let_def argOf_def cond
             split: sum.splits option.splits)
qed

lemma agree_extend:
  assumes "validRef h (beforeRef c)" "validRef h (selectionRef c)"
    and "take (length h) h' = h" "length h \<le> length h'"
  shows "agree c h h'"
proof -
  have "k < length h \<Longrightarrow> deref h' k = deref h k" for k
  proof -
    assume k: "k < length h"
    have "h' ! k = take (length h) h' ! k" using k by simp
    then show ?thesis using assms(3,4) k by (simp add: deref_def)
  qed
  then show ?thesis using assms(1,2)
    by (auto simp: agree_def validRef_def split: option.splits)
qed

lemma agree_trans: "agree c h1 h2 \<Longrightarrow> agree c h2 h3 \<Longrightarrow> agree c h1 h3"
  by (auto simp: agree_def split: option.splits)

lemma agree_sym: "agree c h1 h2 \<Longrightarrow> agree c h2 h1"
  by (auto simp: agree_def split: option.splits)

lemma validRef_mono: "validRef h r \<Longrightarrow> length h \<le> length h' \<Longrightarrow> validRef h' r"
  by (auto simp: validRef_def split: option.splits)

lemma suggestLoop_frame:
  "suggestLoop E c cmds acc h = Inr (res, h') \<Longrightarrow>
   take (length h) h' = h \<and> length h \<le> length h'"
proof (induction cmds arbitrary: acc h)
  case Nil
  then show ?case by simp
next
  case (Cons command rest)
  from Cons.prems obtain e h1 where s: "suggestCommand E c command h = Inr (e, h1)"
    and r: "suggestLoop E c rest (case e of None \<Rightarrow> acc | Some x \<Rightarrow> acc @ [x]) h1 = Inr (res, h')"
    by (auto split: sum.splits option.splits)
  from suggestCommand_frame [OF s] have f1: "take (length h) h1 = h" "length h \<le> length h1"
    by auto
  from Cons.IH [OF r] have f2: "take (length h1) h' = h1" "length h1 \<le> length h'" by auto
  have "take (length h) h' = take (length h) (take (length h1) h')"
    using f1(2) by (simp add: min_def)
  then show ?case using f1 f2 by simp
qed

lemma suggestLoop_agree:
  assumes "validRef h1 (beforeRef c)" "validRef h1 (selectionRef c)"
      and "validRef h2 (beforeRef c)" "validRef h2 (selectionRef c)"
      and "agree c h1 h2"
  shows "map_sum id fst (suggestLoop E c cmds acc h1) =
         map_sum id fst (suggestLoop E c cmds acc h2)"
  using assms
proof (induction cmds arbitrary: acc h1 h2)
  case Nil
  then show ?case by simp
next
  case (Cons command rest)
  have eq: "map_sum id fst (suggestCommand E c command h1) =
            map_sum id fst (suggestCommand E c command h2)"
    using Cons.prems(5) by (rule suggestCommand_agree)
  show ?case
  proof (cases "suggestCommand E c command h1")
    case (Inl e)
    then show ?thesis using eq by (cases "suggestCommand E c command h2") auto
  next
    case (Inr p1)
    obtain e1 h1' where p1: "p1 = (e1, h1')" by (cases p1)
    from eq Inr p1 obtain h2' where s2: "suggestCommand E c command h2 = Inr (e1, h2')"
      by (cases "suggestCommand E c command h2") auto
    have s1: "suggestCommand E c command h1 = Inr (e1, h1')" using Inr p1 by simp
    from suggestCommand_frame [OF s1] suggestCommand_frame [OF s2]
    have f: "take (length h1) h1' = h1" "length h1 \<le> length h1'"
            "take (length h2) h2' = h2" "length h2 \<le> length h2'" by auto
    have ag: "agree c h1' h2'"
      using agree_trans [OF agree_sym [OF agree_extend [OF Cons.prems(1,2) f(1,2)]]
              agree_trans [OF Cons.prems(5) agree_extend [OF Cons.prems(3,4) f(3,4)]]] .
    have v: "validRef h1' (beforeRef c)" "validRef h1' (selectionRef c)"
            "validRef h2' (beforeRef c)" "validRef h2' (selectionRef c)"
      using Cons.prems(1-4) f validRef_mono by blast+
    from Cons.IH [OF v ag] show ?thesis using s1 s2 by (auto split: option.splits)
  qed
qed

text \<open>
  The round of \<open>_onTypedText\<close> for a character that completes a shortcut, for any math
  list: insert the character, snapshot, delete backwards by the length of the match and
  one, insert the substitute; an undo right after it gives the tree with the character.
\<close>

lemma typedChar_shortcut_steps:
  assumes "parseMode E (mathlist mf) = ''math''"
      and "matchEndOf (extractGroupStringBeforeInsertionPoint E (mathlist mf) @ [c])
             (config mf) (INLINE_SHORTCUTS E) = Some sc"
  shows "\<exists>mf'. typedChar E c (mf, pt, da) = (mf', pt, da) \<and>
           mathlist mf' =
             insertML E (JStr (substitute sc)) Undefined
               (deleteML E (- int (length (match sc)) - 1)
                  (insertML E (JStr [c]) Undefined (mathlist mf))) \<and>
           undoManager mf' =
             snapshot (insertML E (JStr [c]) Undefined (mathlist mf)) (undoManager mf) \<and>
           root (mathlist (undoSelector mf')) =
             root (insertML E (JStr [c]) Undefined (mathlist mf))"
proof -
  let ?ml1 = "insertML E (JStr [c]) Undefined (mathlist mf)"
  let ?mf' = "mf\<lparr>mathlist := insertML E (JStr (substitute sc)) Undefined
                 (deleteML E (- int (length (match sc)) - 1) ?ml1),
               undoManager := snapshot ?ml1 (undoManager mf)\<rparr>"
  have step: "typedChar E c (mf, pt, da) = (?mf', pt, da)"
    using assms by (simp add: typedChar_def Let_def)
  have "mathlist (undoSelector ?mf') = fst (undo (mathlist ?mf') (undoManager ?mf'))"
    by (simp add: undoSelector_def split: prod.splits)
  then have "root (mathlist (undoSelector ?mf')) = root ?ml1"
    by (simp add: undo_after_snapshot)
  with step show ?thesis by (intro exI [of _ ?mf']) simp
qed

subsection \<open>The claims\<close>




text \<open>
  C3. An operation name that, with the underscore appended, names a function neither
  on the math list nor on the field makes \<open>perform\<close> return \<open>false\<close>: nothing is
  thrown, and the field (tree, selection, undo stack, render count) is as before.
\<close>

theorem perform_unknown_selector:
  assumes "mathlistMethod E (n @ ''_'') = None"
      and "fieldMethod E (n @ ''_'') = None"
  shows "perform E (Selector n) mf = Inr (False, mf) \<and>
         perform E (SelectorArgs n args) mf = Inr (False, mf)"
  using assms by (simp add: perform_def)

theorem perform_unknown_selector_witness:
  "mathlistMethod flatE (''frobnicate'' @ ''_'') = None \<and>
   fieldMethod flatE (''frobnicate'' @ ''_'') = None \<and>
   perform flatE (Selector ''frobnicate'') (flatField [mkAtom ''mord'' ''x''] 1 0)
     = Inr (False, flatField [mkAtom ''mord'' ''x''] 1 0) \<and>
   perform flatE (SelectorArgs ''frobnicate'' [JNum 1]) (flatField [mkAtom ''mord'' ''x''] 1 0)
     = Inr (False, flatField [mkAtom ''mord'' ''x''] 1 0)"
  using perform_unknown_selector
          [of flatE "''frobnicate''" "flatField [mkAtom ''mord'' ''x''] 1 0" "[JNum 1]"]
  by (simp add: flatE_def flatMethod_def fieldMethod_def documentSelectors_def)

text \<open>
  C5. After a pass of \<open>_render\<close> the tree has the same atoms at the same positions;
  every atom is selected exactly when the selection contains it; an atom has the caret
  exactly when the field has the focus, the selection is collapsed and the atom is the
  anchor. In particular at most one atom has the caret.
\<close>

theorem render_flags:
  "((atomAt (root (mathlist (render E mf))) p = None) =
      (atomAt (root (mathlist mf)) p = None)) \<and>
   (\<forall>a. atomAt (root (mathlist (render E mf))) p = Some a \<longrightarrow>
      isSelected a = contains E (selection (mathlist mf)) p \<and>
      hasCaret a = (focused mf \<and> isCollapsed E (selection (mathlist mf)) \<and>
                    anchor E (selection (mathlist mf)) = p)) \<and>
   (\<forall>q a b. atomAt (root (mathlist (render E mf))) p = Some a \<and> hasCaret a \<and>
      atomAt (root (mathlist (render E mf))) q = Some b \<and> hasCaret b \<longrightarrow> p = q)"
proof (intro conjI allI impI)
  show "(atomAt (root (mathlist (render E mf))) p = None) =
          (atomAt (root (mathlist mf)) p = None)"
    by (rule render_shape)
next
  fix a
  assume "atomAt (root (mathlist (render E mf))) p = Some a"
  from render_flags_at [OF this]
  show "isSelected a = contains E (selection (mathlist mf)) p"
    and "hasCaret a = (focused mf \<and> isCollapsed E (selection (mathlist mf)) \<and>
                       anchor E (selection (mathlist mf)) = p)"
    by simp_all
next
  fix q a b
  assume h: "atomAt (root (mathlist (render E mf))) p = Some a \<and> hasCaret a \<and>
             atomAt (root (mathlist (render E mf))) q = Some b \<and> hasCaret b"
  then have "anchor E (selection (mathlist mf)) = p"
    using render_flags_at [of E mf p a] by simp
  moreover from h have "anchor E (selection (mathlist mf)) = q"
    using render_flags_at [of E mf q b] by simp
  ultimately show "p = q" by simp
qed

theorem render_flags_witness:
  "atomAt (root (mathlist (render flatE
      (flatField [mkAtom ''mord'' ''x'', Atom ''mord'' ''y'' True True []] 1 0)))) [0]
     = Some (Atom ''mord'' ''x'' True False []) \<and>
   focused (flatField [mkAtom ''mord'' ''x'', Atom ''mord'' ''y'' True True []] 1 0) \<and>
   isCollapsed flatE \<lparr>caret = 1, extent = 0\<rparr> \<and>
   anchor flatE \<lparr>caret = 1, extent = 0\<rparr> = [0] \<and>
   \<not> contains flatE \<lparr>caret = 1, extent = 0\<rparr> [0] \<and>
   atomAt (root (mathlist (render flatE
      (flatField [mkAtom ''mord'' ''x'', Atom ''mord'' ''y'' True True []] 1 0)))) [1]
     = Some (Atom ''mord'' ''y'' False False [])"
  using render_flags
          [of flatE "flatField [mkAtom ''mord'' ''x'', Atom ''mord'' ''y'' True True []] 1 0" "[0]"]
  by (simp add: flatE_def flatField_def flatContains_def mkAtom_def MathField_config_def
        render_def)

text \<open>
  C6. For each of the nine delete selectors that the math list implements, \<open>perform\<close>
  pushes a snapshot of the tree as it is before the method runs, runs the method and
  renders; an undo right after it puts back the tree that was there before the call.
  A selector given as a plain name is the selector with no arguments.
\<close>

theorem perform_delete_snapshot:
  assumes "n \<in> set [''delete'', ''transpose'', ''deleteToMathFieldEnd'', ''deleteToGroupEnd'',
                      ''deleteToGroupStart'', ''deletePreviousWord'', ''deleteNextWord'',
                      ''deletePreviousChar'', ''deleteNextChar'']"
      and "mathlistMethod E (n @ ''_'') = Some m"
      and "m args (mathlist mf) = Inr ml'"
  shows "perform E (Selector n) mf = perform E (SelectorArgs n []) mf \<and>
         (\<exists>mf'. perform E (SelectorArgs n args) mf = Inr (True, mf') \<and>
            undoManager mf' = snapshot (mathlist mf) (undoManager mf) \<and>
            mathlist mf' = mathlist (render E (mf\<lparr>mathlist := ml'\<rparr>)) \<and>
            root (mathlist (undoSelector mf')) = root (mathlist mf))"
proof -
  have same: "perform E (Selector n) mf = perform E (SelectorArgs n []) mf"
    by (simp add: perform_def)
  have sel: "n @ ''_'' \<in> set deleteSelectors"
    using assms(1) by (auto simp: deleteSelectors_def)
  let ?mf1 = "mf\<lparr>undoManager := snapshot (mathlist mf) (undoManager mf)\<rparr>"
  let ?mf' = "scrollIntoViewSelector (render E (?mf1\<lparr>mathlist := ml'\<rparr>))"
  have p: "perform E (SelectorArgs n args) mf = Inr (True, ?mf')"
    using assms(2,3) sel by (simp add: perform_def)
  have um: "undoManager ?mf' = snapshot (mathlist mf) (undoManager mf)"
    by (simp add: scrollIntoViewSelector_def render_def Let_def)
  have ml: "mathlist ?mf' = mathlist (render E (mf\<lparr>mathlist := ml'\<rparr>))"
    by (simp add: scrollIntoViewSelector_def render_def Let_def)
  have "mathlist (undoSelector ?mf') = fst (undo (mathlist ?mf') (undoManager ?mf'))"
    by (simp add: undoSelector_def split: prod.splits)
  then have "root (mathlist (undoSelector ?mf')) = root (mathlist mf)"
    by (simp add: um undo_after_snapshot)
  with p um ml have "\<exists>mf'. perform E (SelectorArgs n args) mf = Inr (True, mf') \<and>
            undoManager mf' = snapshot (mathlist mf) (undoManager mf) \<and>
            mathlist mf' = mathlist (render E (mf\<lparr>mathlist := ml'\<rparr>)) \<and>
            root (mathlist (undoSelector mf')) = root (mathlist mf)"
    by (intro exI [of _ ?mf']) simp
  with same show ?thesis by simp
qed

theorem perform_delete_snapshot_witness:
  "mathlistMethod flatE (''deletePreviousChar'' @ ''_'')
     = Some (\<lambda>args ml. Inr (flatDelete (- 1) ml)) \<and>
   flatDelete (- 1) (mathlist (flatField [mkAtom ''mord'' ''x'', mkAtom ''mord'' ''y''] 2 0))
     = \<lparr>root = Atom ''root'' [] False False [mkAtom ''mord'' ''x''],
        selection = \<lparr>caret = 1, extent = 0\<rparr>\<rparr> \<and>
   (\<exists>mf'. perform flatE (SelectorArgs ''deletePreviousChar'' [])
             (flatField [mkAtom ''mord'' ''x'', mkAtom ''mord'' ''y''] 2 0) = Inr (True, mf') \<and>
          root (mathlist mf') = Atom ''root'' [] False False [Atom ''mord'' ''x'' True False []] \<and>
          stack (undoManager mf')
            = [Atom ''root'' [] False False [mkAtom ''mord'' ''x'', mkAtom ''mord'' ''y'']] \<and>
          root (mathlist (undoSelector mf'))
            = Atom ''root'' [] False False [mkAtom ''mord'' ''x'', mkAtom ''mord'' ''y''])"
  using perform_delete_snapshot
          [of "''deletePreviousChar''" flatE "\<lambda>args ml. Inr (flatDelete (- 1) ml)" "[]"
              "flatField [mkAtom ''mord'' ''x'', mkAtom ''mord'' ''y''] 2 0"
              "\<lparr>root = Atom ''root'' [] False False [mkAtom ''mord'' ''x''],
                selection = \<lparr>caret = 1, extent = 0\<rparr>\<rparr>"]
  by (simp add: flatE_def flatField_def flatMethod_def flatDelete_def flatContains_def
        mkAtom_def withChildren_def MathField_config_def perform_def deleteSelectors_def
        render_def scrollIntoViewSelector_def undoSelector_def undo_def snapshot_def)

text \<open>
  C7. With \<open>A\<close> and \<open>+\<close> selected, two atoms of which one is an uppercase letter, the
  list that \<open>suggest\<close> returns holds the Blackboard command: the test
  \<open>selectionIsSingleUppercaseChar\<close> counts the uppercase letters among the selected
  atoms and does not look at the others.
\<close>

theorem blackboard_offered_for_mixed_selection:
  "selectionIsSingleUppercaseChar
     \<lparr>parsemode = ''math'', environment = [], modifiers = [], parent = None,
      beforeRef = None, selectionRef = Some 1, afterRef = None\<rparr>
     (twoArrays [] [mkAtom ''mord'' ''A'', mkAtom ''mbin'' ''+'']) \<and>
   SelectorArgs ''insert'' [JStr (backslash ''mathbb{#0}'')]
     \<in> set (map selector (fst (projr
           (suggest E ''math'' [] [] None None (Some 1) None
              (twoArrays [] [mkAtom ''mord'' ''A'', mkAtom ''mbin'' ''+''])))))"
  by (simp add: suggest_def COMMANDS_def desc_def insertCommand_def suggestCommand_def
        twoArrays_def selectionIsSingleUppercaseChar_def selectionIsNotEmpty_def
        notInCommandMode_def inCommandMode_def selectionIsSingleUppercaseCharOrDigit_def
        selectionIsSingleAlphaChar_def supsubCandidate_def deref_def mkAtom_def testSingle_def
        upperLetters_def lowerLetters_def digits_def sortByUtility_def backslash_def Let_def)

text \<open>
  C8. When \<open>suggest\<close> returns, every array that was in the store is as before (the
  arrays of the context among them: the function only adds arrays of its own), and a
  second call with the same arguments returns the same list in the same order.
\<close>

theorem suggest_pure:
  assumes "validRef h bef" and "validRef h sel"
      and "suggest E pm env mods par bef sel aft h = Inr (res, h')"
  shows "take (length h) h' = h \<and>
         (\<exists>h''. suggest E pm env mods par bef sel aft h' = Inr (res, h''))"
proof -
  let ?c = "\<lparr>parsemode = pm, environment = env, modifiers = mods, parent = par,
             beforeRef = bef, selectionRef = sel, afterRef = aft\<rparr>"
  from assms(3) obtain r0 where l: "suggestLoop E ?c COMMANDS [] h = Inr (r0, h')"
    and res: "res = sortByUtility r0"
    by (auto simp: suggest_def split: sum.splits)
  from suggestLoop_frame [OF l] have f: "take (length h) h' = h" "length h \<le> length h'"
    by auto
  have v: "validRef h (beforeRef ?c)" "validRef h (selectionRef ?c)" using assms(1,2) by simp_all
  have v': "validRef h' (beforeRef ?c)" "validRef h' (selectionRef ?c)"
    using v f(2) validRef_mono by blast+
  have "map_sum id fst (suggestLoop E ?c COMMANDS [] h) =
        map_sum id fst (suggestLoop E ?c COMMANDS [] h')"
    using suggestLoop_agree [OF v v' agree_extend [OF v f]] .
  with l obtain h'' where "suggestLoop E ?c COMMANDS [] h' = Inr (r0, h'')"
    by (cases "suggestLoop E ?c COMMANDS [] h'") auto
  then have "suggest E pm env mods par bef sel aft h' = Inr (res, h'')"
    using res by (simp add: suggest_def)
  with f show ?thesis by blast
qed

theorem suggest_pure_witness:
  "validRef (twoArrays [mkAtom ''mord'' ''x'', mkAtom ''mord'' ''1'', mkAtom ''mord'' ''2''] [])
     (Some 0) \<and>
   validRef (twoArrays [mkAtom ''mord'' ''x'', mkAtom ''mord'' ''1'', mkAtom ''mord'' ''2''] [])
     None \<and>
   (\<exists>res h'.
      suggest flatCmdE ''math'' [] [] None (Some 0) None None
          (twoArrays [mkAtom ''mord'' ''x'', mkAtom ''mord'' ''1'', mkAtom ''mord'' ''2''] [])
        = Inr (res, h') \<and>
      map selector res =
        [Selector ''moveToPreviousChar'', Selector ''moveToNextChar'',
         Selector ''moveToNextPlaceholder'', Selector ''deletePreviousChar'',
         Selector ''enterCommandMode'', Selector ''moveToSuperscript'',
         Selector ''moveToSubscript''] \<and>
      h' = [[mkAtom ''mord'' ''x'', mkAtom ''mord'' ''1'', mkAtom ''mord'' ''2''], [],
            [mkAtom ''mord'' ''1'', mkAtom ''mord'' ''2''],
            [mkAtom ''mord'' ''1'', mkAtom ''mord'' ''2'']] \<and>
      (\<exists>h''. suggest flatCmdE ''math'' [] [] None (Some 0) None None h' = Inr (res, h'')))"
  using suggest_pure
          [where E = flatCmdE and pm = "''math''" and env = "[]" and mods = "[]" and par = None
             and bef = "Some 0" and sel = None and aft = None
             and h = "twoArrays [mkAtom ''mord'' ''x'', mkAtom ''mord'' ''1'', mkAtom ''mord'' ''2''] []"]
  by (simp add: suggest_def COMMANDS_def desc_def insertCommand_def suggestCommand_def
        twoArrays_def validRef_def selectionIsSingleUppercaseChar_def selectionIsNotEmpty_def
        notInCommandMode_def inCommandMode_def selectionIsSingleUppercaseCharOrDigit_def
        selectionIsSingleAlphaChar_def supsubCandidate_def previousSingleCharOrDigits_def
        alloc_def unshift_def push_def deref_def mkAtom_def testSingle_def testDigitOrDot_def
        upperLetters_def lowerLetters_def digits_def sortByUtility_def backslash_def
        latexToMarkup_def flatCmdE_def flatParse_def Let_def)

text \<open>
  C9. Outside math mode the outcome of a typed character does not depend on the
  shortcut tables nor on the deletion of the math list: no match is computed and
  nothing is substituted. In command mode only the math list, the suggestion index
  and the popover change (no snapshot is taken); in any other mode the character is
  inserted after a snapshot.
\<close>

theorem typed_char_outside_math:
  assumes "parseMode E (mathlist mf) \<noteq> ''math''"
  shows "typedChar (E\<lparr>INLINE_SHORTCUTS := b, deleteML := d\<rparr>) c (mf\<lparr>config := cfg\<rparr>, pt, da) =
           (case typedChar E c (mf, pt, da) of (mf', r) \<Rightarrow> (mf'\<lparr>config := cfg\<rparr>, r)) \<and>
         (parseMode E (mathlist mf) = ''command'' \<longrightarrow>
            (\<exists>ml' pv. fst (typedChar E c (mf, pt, da)) =
               mf\<lparr>mathlist := ml', suggestionIndex := 0, popoverVisible := pv\<rparr>)) \<and>
         (parseMode E (mathlist mf) \<noteq> ''command'' \<longrightarrow>
            typedChar E c (mf, pt, da) =
              (mf\<lparr>mathlist := insertML E (JStr [c]) Undefined (mathlist mf),
                   undoManager := snapshot (mathlist mf) (undoManager mf)\<rparr>, pt, da))"
proof (intro conjI impI)
  show "typedChar (E\<lparr>INLINE_SHORTCUTS := b, deleteML := d\<rparr>) c (mf\<lparr>config := cfg\<rparr>, pt, da) =
           (case typedChar E c (mf, pt, da) of (mf', r) \<Rightarrow> (mf'\<lparr>config := cfg\<rparr>, r))"
  proof (cases "parseMode E (mathlist mf) = ''command''")
    case True
    show ?thesis
    proof (cases "suggestDefinitions E
                   (extractCommandStringAroundInsertionPoint E
                      (removeSuggestion E (mathlist mf)) @ [c])")
      case Nil
      then show ?thesis using True by (simp add: typedChar_def Let_def hidePopover_def)
    next
      case (Cons s rest)
      then show ?thesis using True by (simp add: typedChar_def Let_def)
    qed
  next
    case False
    then show ?thesis using assms by (simp add: typedChar_def Let_def)
  qed
next
  assume cm: "parseMode E (mathlist mf) = ''command''"
  let ?ml1 = "removeSuggestion E (mathlist mf)"
  let ?command = "extractCommandStringAroundInsertionPoint E ?ml1"
  let ?ml2 = "insertML E (JStr [c]) Undefined ?ml1"
  show "\<exists>ml' pv. fst (typedChar E c (mf, pt, da)) =
               mf\<lparr>mathlist := ml', suggestionIndex := 0, popoverVisible := pv\<rparr>"
  proof (cases "suggestDefinitions E (?command @ [c])")
    case Nil
    let ?ml3 = "if looksLikeCommand (?command @ [c])
                then decorateCommandStringAroundInsertionPoint E True ?ml2 else ?ml2"
    have "fst (typedChar E c (mf, pt, da)) =
            mf\<lparr>mathlist := ?ml3, suggestionIndex := 0, popoverVisible := False\<rparr>"
      using cm Nil by (simp add: typedChar_def Let_def hidePopover_def)
    then show ?thesis by (intro exI)
  next
    case (Cons s rest)
    let ?ml3 = "if s \<noteq> ?command @ [c]
                then insertSuggestion E s (- int (length s) + int (length ?command) + 1) ?ml2
                else ?ml2"
    have "fst (typedChar E c (mf, pt, da)) =
            mf\<lparr>mathlist := ?ml3, suggestionIndex := 0, popoverVisible := popoverVisible mf\<rparr>"
      using cm Cons by (simp add: typedChar_def Let_def)
    then show ?thesis by (intro exI)
  qed
next
  assume "parseMode E (mathlist mf) \<noteq> ''command''"
  then show "typedChar E c (mf, pt, da) =
              (mf\<lparr>mathlist := insertML E (JStr [c]) Undefined (mathlist mf),
                   undoManager := snapshot (mathlist mf) (undoManager mf)\<rparr>, pt, da)"
    using assms by (simp add: typedChar_def Let_def)
qed

theorem typed_char_outside_math_witness:
  "parseMode flatE (mathlist commandField) = ''command'' \<and>
   matchEndOf (extractGroupStringBeforeInsertionPoint flatE (mathlist commandField) @ ''i'')
     (config commandField) (INLINE_SHORTCUTS flatE)
     = Some \<lparr>match = ''pi'', substitute = CHR 0x5C # ''pi''\<rparr> \<and>
   fst (typedChar (flatE\<lparr>INLINE_SHORTCUTS := Map.empty, deleteML := (\<lambda>n ml. ml)\<rparr>) (CHR ''i'')
          (commandField\<lparr>config := userConfig (Some True)\<rparr>, None, False))
     = (fst (typedChar flatE (CHR ''i'') (commandField, None, False)))
         \<lparr>config := userConfig (Some True)\<rparr> \<and>
   undoManager (fst (typedChar flatE (CHR ''i'') (commandField, None, False)))
     = undoManager commandField \<and>
   children (root (mathlist (fst (typedChar flatE (CHR ''i'') (commandField, None, False)))))
     = [mkAtom ''command'' [CHR 0x5C], mkAtom ''command'' ''p'', mkAtom ''command'' ''i''] \<and>
   parseMode (flatE\<lparr>parseMode := (\<lambda>ml. ''text'')\<rparr>)
     (mathlist (flatField [mkAtom ''mord'' ''p''] 1 0)) = ''text'' \<and>
   typedChar (flatE\<lparr>parseMode := (\<lambda>ml. ''text'')\<rparr>) (CHR ''i'')
       (flatField [mkAtom ''mord'' ''p''] 1 0, None, False)
     = ((flatField [mkAtom ''mord'' ''p''] 1 0)
          \<lparr>mathlist := \<lparr>root = Atom ''root'' [] False False
                                    [mkAtom ''mord'' ''p'', mkAtom ''mord'' ''i''],
                         selection = \<lparr>caret = 2, extent = 0\<rparr>\<rparr>,
           undoManager := \<lparr>stack = [Atom ''root'' [] False False [mkAtom ''mord'' ''p'']],
                           cursor = 1\<rparr>\<rparr>,
        None, False)"
  using typed_char_outside_math
          [where E = flatE and mf = commandField and b = Map.empty and d = "\<lambda>n ml. ml"
             and c = "CHR ''i''" and cfg = "userConfig (Some True)" and pt = None and da = False]
        typed_char_outside_math
          [where E = "flatE\<lparr>parseMode := (\<lambda>ml. ''text'')\<rparr>"
             and mf = "flatField [mkAtom ''mord'' ''p''] 1 0" and c = "CHR ''i''"
             and pt = None and da = False]
  by (simp add: flatE_def flatField_def flatInsert_def flatParse_def flatParseMode_def
        mkAtom_def withChildren_def MathField_config_def commandField_def userConfig_def
        typedChar_def matchEndOf_def lookupShortcut_def hidePopover_def snapshot_def
        Let_def looksLikeCommand_def letters_def)

text \<open>
  C10. Called with the empty string, or with any other falsy argument, \<open>latex\<close> is a
  getter: the whole state of the field (tree, selection, undo stack, render count) is
  as before, no snapshot is taken, nothing is inserted, and the result is the current
  content serialized as LaTeX.
\<close>

theorem latex_falsy_is_getter:
  assumes "\<not> truthy text"
  shows "latex E text mf = (toLatex E (root (mathlist mf)), mf)"
  using assms by (simp add: latex_def)

theorem latex_falsy_is_getter_witness:
  "\<not> truthy (JStr []) \<and>
   latex flatE (JStr []) (flatField [mkAtom ''mord'' ''x''] 1 0) =
     (''x'', flatField [mkAtom ''mord'' ''x''] 1 0)"
  using latex_falsy_is_getter [of "JStr []" flatE "flatField [mkAtom ''mord'' ''x''] 1 0"]
  by (simp add: flatE_def flatField_def mkAtom_def)

end
